theory Spec2Isabelle
  imports Main "HOL-Library.AList"
begin

section \<open>The lightflow command line client (lightflow/scripts/cli.py)\<close>

text \<open>
  The module defines five click commands: \<open>info\<close>, \<open>run\<close>, \<open>stop\<close>, \<open>worker\<close> and
  \<open>config\<close>. Each command is embedded as a function from its parsed command line
  parameters to an outcome: the sequence of observable events (lines echoed, calls made
  to the \<open>lightflow\<close> package) and the exception that leaves the command, if any.
  The \<open>lightflow\<close> package and \<open>click.style\<close> are not part of the module; they are
  parameters of the model, collected in the record \<open>collaborators\<close>.
\<close>

subsection \<open>Exceptions\<close>

datatype error =
    ValueError
  | KeyError
  | AttributeError
  | NameError
  | WorkflowArgumentError string
  | OtherError string

subsection \<open>Python strings and dictionaries\<close>

text \<open>
  \<open>s.split(sep)\<close> and \<open>s.split(sep, maxsplit=n)\<close> for a one-character separator.
  The budget \<open>None\<close> is the unlimited split, \<open>Some n\<close> allows \<open>n\<close> more cuts. The result
  always has a first piece, so the empty case of the inner \<open>case\<close> is never taken.
\<close>

fun str_split :: "char \<Rightarrow> nat option \<Rightarrow> string \<Rightarrow> string list" where
  "str_split sep m [] = [[]]"
| "str_split sep m (c # cs) =
     (if c = sep \<and> m \<noteq> Some 0
      then [] # str_split sep (map_option (\<lambda>k. k - 1) m) cs
      else (case str_split sep m cs of
              p # ps \<Rightarrow> (c # p) # ps
            | [] \<Rightarrow> [[c]]))"

text \<open>\<open>sep.join(xs)\<close>.\<close>

fun str_join :: "string \<Rightarrow> string list \<Rightarrow> string" where
  "str_join sep [] = []"
| "str_join sep [x] = x"
| "str_join sep (x # y # ys) = x @ sep @ str_join sep (y # ys)"

text \<open>
  A dictionary keeps its keys in insertion order; assigning to a key that is present
  replaces its value in place (\<open>AList.update\<close>), \<open>map_of\<close> reads a key.
\<close>

type_synonym ('k, 'v) dict = "('k \<times> 'v) list"

text \<open>
  \<open>dict(seq)\<close> for a sequence of lists: every element must have exactly two items, the
  first element of another length raises \<open>ValueError\<close>; later pairs overwrite earlier
  ones with the same key.
\<close>

fun dict_update_seq :: "(string, string) dict \<Rightarrow> string list list \<Rightarrow> error + (string, string) dict" where
  "dict_update_seq d [] = Inr d"
| "dict_update_seq d (e # es) =
     (case e of
        [k, v] \<Rightarrow> dict_update_seq (AList.update k v d) es
      | _ \<Rightarrow> Inl ValueError)"

definition dict_of_seq :: "string list list \<Rightarrow> error + (string, string) dict" where
  "dict_of_seq es = dict_update_seq [] es"

subsection \<open>Records reported by the engine\<close>

record broker_info =
  transport :: string
  hostname :: string
  port :: int
  virtual_host :: string

record proc_info =
  pid :: int
  processes :: "int list"

record worker_data =
  broker :: broker_info
  proc :: proc_info

text \<open>
  A task record is a dictionary with the keys \<open>id\<close>, \<open>name\<close>, \<open>type\<close> and, for
  workflows, \<open>workflow_id\<close>; \<open>None\<close> stands for the absent key.
\<close>

record task =
  task_id :: string
  task_name :: string
  task_type :: string
  workflow_id :: "string option"

subsection \<open>Events and collaborators\<close>

datatype event =
    Echo string
  | Call_run_workflow string bool "(string, string) dict"
  | Call_stop_all_workflows
  | Call_stop_tasks "string list"
  | Call_run_worker "string list"

type_synonym outcome = "event list \<times> error option"

record collaborators =
  style :: "string \<Rightarrow> string option \<Rightarrow> bool option \<Rightarrow> string"
  get_workers :: "error + (string, worker_data) dict"
  get_queues :: "string \<Rightarrow> error + string list"
  get_tasks :: "string \<Rightarrow> string \<Rightarrow> error + task list"
  run_workflow :: "string \<Rightarrow> bool \<Rightarrow> (string, string) dict \<Rightarrow> error + string"
  stop_all_workflows :: "error + task list"
  stop_tasks :: "string list \<Rightarrow> error + task list"
  run_worker :: "string list \<Rightarrow> error + unit"

subsection \<open>The run command\<close>

text \<open>
  The third argument of the call, \<open>dict([arg.split('=', maxsplit=1) for arg in args])\<close>.
  It is evaluated before \<open>run_workflow\<close> is entered.
\<close>

definition run_arguments :: "string list \<Rightarrow> error + (string, string) dict" where
  "run_arguments args = dict_of_seq (map (str_split CHR ''='' (Some 1)) args)"

text \<open>
  The \<open>try\<close> block catches \<open>WorkflowArgumentError\<close> only: any other exception leaves
  the command. The value returned by \<open>run_workflow\<close> is dropped.
\<close>

definition run :: "collaborators \<Rightarrow> bool \<Rightarrow> string \<Rightarrow> string list \<Rightarrow> outcome" where
  "run env keep_data name args =
     (case run_arguments args of
        Inl e \<Rightarrow> ([], Some e)
      | Inr d \<Rightarrow>
          (case run_workflow env name (\<not> keep_data) d of
             Inr wid \<Rightarrow> ([Call_run_workflow name (\<not> keep_data) d], None)
           | Inl (WorkflowArgumentError msg) \<Rightarrow>
               ([Call_run_workflow name (\<not> keep_data) d,
                 Echo (style env ''An error occurred when trying to run the workflow:''
                         (Some ''red'') (Some True)),
                 Echo (''>> '' @ msg)], None)
           | Inl e \<Rightarrow> ([Call_run_workflow name (\<not> keep_data) d], Some e)))"

text \<open>The text before the first \<open>=\<close> of a token, and the text after it.\<close>

definition before_eq :: "string \<Rightarrow> string" where
  "before_eq t = takeWhile (\<lambda>c. c \<noteq> CHR ''='') t"

definition after_eq :: "string \<Rightarrow> string" where
  "after_eq t = drop 1 (dropWhile (\<lambda>c. c \<noteq> CHR ''='') t)"

text \<open>The assignment \<open>d[key] = value\<close> for the key and value of one token.\<close>

definition assign_token :: "string \<Rightarrow> (string, string) dict \<Rightarrow> (string, string) dict" where
  "assign_token t d = AList.update (before_eq t) (after_eq t) d"

subsection \<open>The stop command\<close>

definition stop :: "collaborators \<Rightarrow> string list \<Rightarrow> outcome" where
  "stop env ids =
     (if length ids = 0
      then ([Echo ''Please specify at least one dag or workflow''], None)
      else
        (let (call, answer) =
               (if ''all'' \<in> set ids
                then (Call_stop_all_workflows, stop_all_workflows env)
                else (Call_stop_tasks ids, stop_tasks env ids))
         in case answer of
              Inl e \<Rightarrow> ([call], Some e)
            | Inr tasks_stopped \<Rightarrow>
                (if length tasks_stopped > 0
                 then (call # map (\<lambda>t. Echo (''Sent stop signal to '' @ task_type t @ '': ''
                                              @ task_name t @ '' <'' @ task_id t @ ''>''))
                                  tasks_stopped, None)
                 else ([call, Echo ''Could not find the specified dag or workflow''], None))))"

subsection \<open>The Stop Coordinator\<close>

text \<open>
  Modelled from the spec: the Stop Coordinator, that is the functions
  \<open>lightflow.stop_tasks\<close> and \<open>lightflow.stop_all_workflows\<close>, which the module calls
  and does not define. The registry is the list of the task records that are active or
  scheduled. \<open>stop_tasks(ids)\<close> returns the affected task records, the registered tasks
  identified by one of the ids; \<open>stop_all_workflows()\<close> returns every registered task of
  type \<open>workflow\<close>. Neither raises; with no such task the list is empty.
\<close>

definition spec_stop_tasks :: "task list \<Rightarrow> string list \<Rightarrow> error + task list" where
  "spec_stop_tasks registry ids = Inr (filter (\<lambda>t. task_id t \<in> set ids) registry)"

definition spec_stop_all_workflows :: "task list \<Rightarrow> error + task list" where
  "spec_stop_all_workflows registry = Inr (filter (\<lambda>t. task_type t = ''workflow'') registry)"

text \<open>The collaborators with this Stop Coordinator over a registry.\<close>

definition with_stop_coordinator :: "task list \<Rightarrow> collaborators \<Rightarrow> collaborators" where
  "with_stop_coordinator registry env =
     env\<lparr>stop_all_workflows := spec_stop_all_workflows registry,
         stop_tasks := spec_stop_tasks registry\<rparr>"

text \<open>
  Modelled from the spec: a stop request is a set of ids, or the sentinel \<open>all\<close> meaning
  every active workflow. A task matches the request when one of the ids is its id, or
  when the request holds \<open>all\<close> and the task is a workflow.
\<close>

definition request_matches :: "string list \<Rightarrow> task \<Rightarrow> bool" where
  "request_matches ids t =
     (task_id t \<in> set ids \<or> (''all'' \<in> set ids \<and> task_type t = ''workflow''))"

subsection \<open>The worker command\<close>

definition worker :: "collaborators \<Rightarrow> string \<Rightarrow> outcome" where
  "worker env queues =
     (let qs = str_split CHR '','' None queues
      in ([Call_run_worker qs],
          case run_worker env qs of Inl e \<Rightarrow> Some e | Inr u \<Rightarrow> None))"

text \<open>
  The option \<open>--queues\<close> is declared with \<open>default='workflow,dag,task'\<close>: click passes
  the default when the option is not given.
\<close>

definition worker_command :: "collaborators \<Rightarrow> string option \<Rightarrow> outcome" where
  "worker_command env queues_option =
     worker env (case queues_option of None \<Rightarrow> ''workflow,dag,task'' | Some q \<Rightarrow> q)"

subsection \<open>The config command\<close>

text \<open>
  The names bound at module level, in the order the module body binds them. The
  configuration object is imported under the name \<open>lf_config\<close>; each decorated function
  definition binds its own name to the click command built from it.
\<close>

datatype pyobject =
    Module string
  | ConfigObject
  | ExceptionClass string
  | ClickGroup string
  | ClickCommand string

definition module_bindings :: "(string \<times> pyobject) list" where
  "module_bindings =
     [(''click'', Module ''click''),
      (''lightflow'', Module ''lightflow''),
      (''lf_config'', ConfigObject),
      (''WorkflowArgumentError'', ExceptionClass ''WorkflowArgumentError''),
      (''cli'', ClickGroup ''cli''),
      (''info'', ClickCommand ''info''),
      (''run'', ClickCommand ''run''),
      (''stop'', ClickCommand ''stop''),
      (''worker'', ClickCommand ''worker''),
      (''config'', ClickCommand ''config'')]"

definition module_globals :: "(string, pyobject) dict" where
  "module_globals = fold (\<lambda>(k, v). AList.update k v) module_bindings []"

text \<open>
  \<open>obj.default()\<close>: only the configuration object has a method \<open>default\<close>, which
  returns the default configuration document; a click command or group has no attribute
  of that name.
\<close>

fun call_default :: "string \<Rightarrow> pyobject \<Rightarrow> error + string" where
  "call_default doc ConfigObject = Inr doc"
| "call_default doc obj = Inl AttributeError"

text \<open>
  The file system is a map from paths to contents. \<open>open(path, 'w')\<close> creates or
  truncates the file before the argument of \<open>f.write\<close> is evaluated.
\<close>

definition config :: "string \<Rightarrow> (string \<rightharpoonup> string) \<Rightarrow> (string \<rightharpoonup> string) \<times> error option" where
  "config default_doc files =
     (let opened = files(''lightflow.cfg'' \<mapsto> [])
      in case map_of module_globals ''config'' of
           None \<Rightarrow> (opened, Some NameError)
         | Some obj \<Rightarrow>
             (case call_default default_doc obj of
                Inl e \<Rightarrow> (opened, Some e)
              | Inr doc \<Rightarrow> (opened(''lightflow.cfg'' \<mapsto> doc), None)))"

subsection \<open>The info command\<close>

text \<open>\<open>str(n)\<close> for an integer, and the format field \<open>{:w}\<close> applied to a string.\<close>

fun str_nat :: "nat \<Rightarrow> string" where
  "str_nat n =
     (if n < 10 then [char_of (48 + n)]
      else str_nat (n div 10) @ [char_of (48 + n mod 10)])"

declare str_nat.simps [simp del]

definition str_int :: "int \<Rightarrow> string" where
  "str_int i = (if i < 0 then CHR ''-'' # str_nat (nat (- i)) else str_nat (nat i))"

definition ljust :: "nat \<Rightarrow> string \<Rightarrow> string" where
  "ljust w s = s @ replicate (w - length s) CHR '' ''"

text \<open>Sequencing: the second part runs only when the first raised nothing.\<close>

definition and_then :: "outcome \<Rightarrow> outcome \<Rightarrow> outcome" where
  "and_then a b = (case snd a of None \<Rightarrow> (fst a @ fst b, snd b) | Some e \<Rightarrow> a)"

definition task_colour :: "(string, (string, string option) dict) dict" where
  "task_colour =
     [(''active'', [(''workflow'', Some ''green''), (''dag'', Some ''yellow''),
                    (''task'', Some ''magenta'')]),
      (''scheduled'', [(''workflow'', None), (''dag'', None), (''task'', None)])]"

definition getitem :: "('k, 'v) dict \<Rightarrow> 'k \<Rightarrow> error + 'v" where
  "getitem d k = (case map_of d k of None \<Rightarrow> Inl KeyError | Some v \<Rightarrow> Inr v)"

text \<open>The line echoed for the \<open>i\<close>-th task of a status, or the \<open>KeyError\<close> raised
  while it is built.\<close>

definition task_line :: "collaborators \<Rightarrow> string \<Rightarrow> nat \<Rightarrow> task \<Rightarrow> error + string" where
  "task_line env task_status i t =
     (case (if task_type t = ''workflow''
            then (case workflow_id t of
                    None \<Rightarrow> Inl KeyError
                  | Some w \<Rightarrow> Inr (''['' @ w @ '']''))
            else Inr []) of
        Inl e \<Rightarrow> Inl e
      | Inr wid_str \<Rightarrow>
          (case getitem task_colour task_status of
             Inl e \<Rightarrow> Inl e
           | Inr colours \<Rightarrow>
               (case getitem colours (task_type t) of
                  Inl e \<Rightarrow> Inl e
                | Inr fg \<Rightarrow>
                    (let text = style env (task_name t @ '' ('' @ task_type t @ '') ''
                                           @ wid_str @ '' <'' @ task_id t @ ''>'') fg None
                     in Inr (if i = 0
                             then ljust 20 (style env (''> '' @ task_status @ '':'') None (Some True))
                                  @ '' '' @ text
                             else ljust 12 '' '' @ '' '' @ text)))))"

fun echo_tasks :: "collaborators \<Rightarrow> string \<Rightarrow> nat \<Rightarrow> task list \<Rightarrow> outcome" where
  "echo_tasks env task_status i [] = ([], None)"
| "echo_tasks env task_status i (t # ts) =
     (case task_line env task_status i t of
        Inl e \<Rightarrow> ([], Some e)
      | Inr l \<Rightarrow> and_then ([Echo l], None) (echo_tasks env task_status (Suc i) ts))"

fun echo_statuses :: "collaborators \<Rightarrow> string \<Rightarrow> string list \<Rightarrow> outcome" where
  "echo_statuses env name [] = ([], None)"
| "echo_statuses env name (task_status # rest) =
     (case get_tasks env name task_status of
        Inl e \<Rightarrow> ([], Some e)
      | Inr ts \<Rightarrow> and_then (echo_tasks env task_status 0 ts) (echo_statuses env name rest))"

definition broker_line :: "collaborators \<Rightarrow> broker_info \<Rightarrow> string" where
  "broker_line env b =
     ljust 20 (style env ''> broker:'' None (Some True)) @ '' '' @ transport b @ ''://''
     @ hostname b @ '':'' @ str_int (port b) @ ''/'' @ virtual_host b"

definition worker_header :: "collaborators \<Rightarrow> string \<Rightarrow> worker_data \<Rightarrow> event list" where
  "worker_header env name wd =
     [Echo (style env ''Worker:'' (Some ''blue'') (Some True) @ '' ''
            @ style env name (Some ''blue'') None),
      Echo (ljust 20 (style env ''> pid:'' None (Some True)) @ '' '' @ str_int (pid (proc wd))),
      Echo (ljust 20 (style env ''> processes:'' None (Some True)) @ '' ''
            @ str_join '', '' (map str_int (processes (proc wd)))),
      Echo (broker_line env (broker wd))]"

definition echo_worker :: "collaborators \<Rightarrow> string \<Rightarrow> worker_data \<Rightarrow> outcome" where
  "echo_worker env name wd =
     and_then (worker_header env name wd, None)
       (case get_queues env name of
          Inl e \<Rightarrow> ([], Some e)
        | Inr qs \<Rightarrow>
            and_then ([Echo (ljust 20 (style env ''> queues:'' None (Some True)) @ '' ''
                             @ str_join '', '' qs)], None)
              (and_then (echo_statuses env name [''active'', ''scheduled''])
                 ([Echo [CHR 0x0A]], None)))"

fun echo_workers :: "collaborators \<Rightarrow> (string, worker_data) dict \<Rightarrow> outcome" where
  "echo_workers env [] = ([], None)"
| "echo_workers env ((name, wd) # rest) =
     and_then (echo_worker env name wd) (echo_workers env rest)"

definition info :: "collaborators \<Rightarrow> outcome" where
  "info env =
     (case get_workers env of
        Inl e \<Rightarrow> ([], Some e)
      | Inr workers \<Rightarrow> and_then ([Echo [CHR 0x0A]], None) (echo_workers env workers))"

text \<open>The connection URI of a broker descriptor.\<close>

definition connection_uri :: "broker_info \<Rightarrow> string" where
  "connection_uri b =
     transport b @ ''://'' @ hostname b @ '':'' @ str_int (port b) @ ''/'' @ virtual_host b"

subsection \<open>A concrete set of collaborators\<close>

text \<open>
  An engine with one worker and one active workflow, which accepts every run and stop
  request and finds no task to stop; its \<open>style\<close> returns the text unchanged. It serves
  as the concrete input of the instances below.
\<close>

definition demo_broker :: broker_info where
  "demo_broker = \<lparr>transport = ''amqp'', hostname = ''localhost'', port = 5672, virtual_host = ''lf''\<rparr>"

definition demo_worker :: worker_data where
  "demo_worker = \<lparr>broker = demo_broker, proc = \<lparr>pid = 4711, processes = [4712, 4713]\<rparr>\<rparr>"

definition demo_task :: task where
  "demo_task = \<lparr>task_id = ''t1'', task_name = ''demo'', task_type = ''workflow'',
                workflow_id = Some ''w1''\<rparr>"

definition demo_env :: collaborators where
  "demo_env =
     \<lparr>style = (\<lambda>text fg bold. text),
      get_workers = Inr [(''celery@host'', demo_worker)],
      get_queues = (\<lambda>name. Inr [''workflow'', ''dag'', ''task'']),
      get_tasks = (\<lambda>name task_status. Inr (if task_status = ''active'' then [demo_task] else [])),
      run_workflow = (\<lambda>name clear args. Inr ''w1''),
      stop_all_workflows = Inr [],
      stop_tasks = (\<lambda>ids. Inr []),
      run_worker = (\<lambda>qs. Inr ())\<rparr>"

section \<open>Auxiliary facts\<close>

subsection \<open>Splitting tokens and building the arguments mapping\<close>

lemma str_split_no_budget: "str_split sep (Some 0) s = [s]"
  by (induction s) auto

lemma str_split_first:
  "str_split CHR ''='' (Some (Suc 0)) t =
     (if CHR ''='' \<in> set t then [before_eq t, after_eq t] else [t])"
  by (induction t) (auto simp: before_eq_def after_eq_def str_split_no_budget)

lemma dict_update_seq_wellformed:
  "\<forall>t\<in>set ts. CHR ''='' \<in> set t \<Longrightarrow>
   dict_update_seq d (map (str_split CHR ''='' (Some 1)) ts) = Inr (fold assign_token ts d)"
  by (induction ts arbitrary: d) (auto simp: str_split_first assign_token_def)

lemma dict_update_seq_malformed:
  "\<exists>t\<in>set ts. CHR ''='' \<notin> set t \<Longrightarrow>
   dict_update_seq d (map (str_split CHR ''='' (Some 1)) ts) = Inl ValueError"
proof (induction ts arbitrary: d)
  case Nil
  then show ?case by simp
next
  case (Cons t ts)
  show ?case
  proof (cases "CHR ''='' \<in> set t")
    case True
    with Cons.prems have "\<exists>u\<in>set ts. CHR ''='' \<notin> set u" by auto
    with Cons.IH True show ?thesis by (simp add: str_split_first)
  next
    case False
    then show ?thesis by (simp add: str_split_first)
  qed
qed

lemma run_arguments_wellformed:
  "\<forall>t\<in>set args. CHR ''='' \<in> set t \<Longrightarrow> run_arguments args = Inr (fold assign_token args [])"
  unfolding run_arguments_def dict_of_seq_def by (rule dict_update_seq_wellformed)

lemma run_arguments_malformed:
  "\<exists>t\<in>set args. CHR ''='' \<notin> set t \<Longrightarrow> run_arguments args = Inl ValueError"
  unfolding run_arguments_def dict_of_seq_def by (rule dict_update_seq_malformed)

lemma map_of_fold_assign:
  "map_of (fold assign_token ts d) =
   map_of (rev (map (\<lambda>t. (before_eq t, after_eq t)) ts) @ d)"
  by (induction ts arbitrary: d) (auto simp: assign_token_def update_conv')

lemma map_of_last_wins:
  "t \<in> set ts \<Longrightarrow>
   map_of (rev (map (\<lambda>u. (f u, g u)) ts)) (f t) = Some (g (last (filter (\<lambda>u. f u = f t) ts)))"
proof (induction ts rule: rev_induct)
  case Nil
  then show ?case by simp
next
  case (snoc x xs)
  show ?case
  proof (cases "f x = f t")
    case True
    then show ?thesis by simp
  next
    case False
    with snoc.prems have "t \<in> set xs" by auto
    with snoc.IH False show ?thesis by simp
  qed
qed

lemma run_first_event:
  "run_arguments args = Inr d \<Longrightarrow>
   take 1 (fst (run env keep_data name args)) = [Call_run_workflow name (\<not> keep_data) d]"
  by (simp add: run_def split: sum.splits error.splits)

lemma run_later_events:
  "e \<in> set (drop 1 (fst (run env keep_data name args))) \<Longrightarrow> \<exists>s. e = Echo s"
  by (auto simp: run_def split: sum.splits error.splits)

subsection \<open>The events of the stop command\<close>

lemma stop_events:
  "ids \<noteq> [] \<Longrightarrow>
   \<exists>echoes. fst (stop env ids) =
     (if ''all'' \<in> set ids then Call_stop_all_workflows else Call_stop_tasks ids) # map Echo echoes"
proof -
  assume ne: "ids \<noteq> []"
  let ?sent = "\<lambda>t. ''Sent stop signal to '' @ task_type t @ '': '' @ task_name t @ '' <''
                     @ task_id t @ ''>''"
  have m: "map (\<lambda>t. Echo (?sent t)) ts = map Echo (map ?sent ts)" for ts
    by simp
  have e0: "[] = map Echo []" by simp
  have e1: "[Echo s] = map Echo [s]" for s by simp
  show ?thesis
  proof (cases "''all'' \<in> set ids")
    case True
    with ne show ?thesis
      unfolding stop_def Let_def using m e0 e1
      by (cases "stop_all_workflows env") (auto simp del: map_map list.map)
  next
    case False
    with ne show ?thesis
      unfolding stop_def Let_def using m e0 e1
      by (cases "stop_tasks env ids") (auto simp del: map_map list.map)
  qed
qed

lemma stop_empty_answer:
  "ids \<noteq> [] \<Longrightarrow>
   (if ''all'' \<in> set ids then stop_all_workflows env else stop_tasks env ids) = Inr [] \<Longrightarrow>
   stop env ids =
     ([if ''all'' \<in> set ids then Call_stop_all_workflows else Call_stop_tasks ids,
       Echo ''Could not find the specified dag or workflow''], None)"
  by (auto simp: stop_def split: if_splits)

subsection \<open>Splitting at every separator\<close>

lemma str_split_nonempty: "str_split sep m s \<noteq> []"
  by (induction s arbitrary: m) (auto split: list.splits)

lemma str_join_Cons_char:
  "str_join [sep] ((c # p) # ps) = c # str_join [sep] (p # ps)"
  by (cases ps) simp_all

lemma str_join_split: "str_join [sep] (str_split sep None s) = s"
proof (induction s)
  case Nil
  then show ?case by simp
next
  case (Cons c cs)
  obtain p ps where sp: "str_split sep None cs = p # ps"
    using str_split_nonempty [of sep None cs] by (cases "str_split sep None cs") auto
  with Cons show ?case by (auto simp: str_join_Cons_char)
qed

lemma str_split_pieces: "x \<in> set (str_split sep None s) \<Longrightarrow> sep \<notin> set x"
proof (induction s arbitrary: x)
  case Nil
  then show ?case by simp
next
  case (Cons c cs)
  obtain p ps where sp: "str_split sep None cs = p # ps"
    using str_split_nonempty [of sep None cs] by (cases "str_split sep None cs") auto
  have p: "sep \<notin> set p" and ps: "\<forall>y\<in>set ps. sep \<notin> set y"
    using Cons.IH sp by auto
  from Cons.prems sp p ps show ?case by (auto split: if_splits)
qed

lemma str_split_length: "length (str_split sep None s) = Suc (count_list s sep)"
proof (induction s)
  case Nil
  then show ?case by simp
next
  case (Cons c cs)
  obtain p ps where sp: "str_split sep None cs = p # ps"
    using str_split_nonempty [of sep None cs] by (cases "str_split sep None cs") auto
  with Cons show ?case by auto
qed

subsection \<open>The lines of the info command\<close>

lemma and_then_assoc: "and_then (and_then a b) c = and_then a (and_then b c)"
  by (cases a) (auto simp: and_then_def split: option.splits)

lemma and_then_unit: "and_then ([], None) b = b"
  by (simp add: and_then_def)

lemma fst_and_then_completed: "snd a = None \<Longrightarrow> fst (and_then a b) = fst a @ fst b"
  by (simp add: and_then_def)

lemma set_fst_and_then: "set (fst a) \<subseteq> set (fst (and_then a b))"
  by (auto simp: and_then_def split: option.splits)

lemma echo_workers_append:
  "echo_workers env (xs @ ys) = and_then (echo_workers env xs) (echo_workers env ys)"
  by (induction xs) (auto simp: and_then_assoc and_then_unit)

lemma broker_line_in_echo_worker:
  "Echo (broker_line env (broker wd)) \<in> set (fst (echo_worker env name wd))"
proof -
  have "Echo (broker_line env (broker wd)) \<in> set (fst (worker_header env name wd, None :: error option))"
    by (simp add: worker_header_def)
  then show ?thesis
    unfolding echo_worker_def using set_fst_and_then by blast
qed

lemma broker_line_uri:
  "broker_line env b
     = ljust 20 (style env ''> broker:'' None (Some True)) @ '' '' @ connection_uri b"
  by (simp add: broker_line_def connection_uri_def)

section \<open>Claims about the run command\<close>

text \<open>
  Claim C1, as amended. For every invocation of the run command whose token list contains
  a token with no \<open>=\<close>, building the arguments mapping raises \<open>ValueError\<close>, which the
  command does not catch: the invocation fails with \<open>ValueError\<close>, nothing is echoed and
  \<open>run_workflow\<close> is never called.
\<close>
theorem run_malformed_token:
  "\<exists>t\<in>set args. CHR ''='' \<notin> set t \<Longrightarrow> run env keep_data name args = ([], Some ValueError)"
  by (simp add: run_def run_arguments_malformed)

theorem run_malformed_token_witness:
  "(\<exists>t\<in>set [''a=1'', ''bad'']. CHR ''='' \<notin> set t) \<and>
   run demo_env True ''demo'' [''a=1'', ''bad''] = ([], Some ValueError)"
  using run_malformed_token [of "[''a=1'', ''bad'']" demo_env True "''demo''"] by simp

text \<open>
  The claim as stated (the failure is a \<open>WorkflowArgumentError\<close>) does not hold: for the
  single token \<open>bad\<close> the exception that leaves the command is \<open>ValueError\<close>.
\<close>

theorem run_bad_token_raises_ValueError:
  "snd (run demo_env False ''demo'' [''bad'']) = Some ValueError"
  by (simp add: run_def run_arguments_def dict_of_seq_def)

text \<open>
  Claim C3, as amended. The token list \<open>["a=1", "b=2"]\<close> yields the mapping
  \<open>{"a": "1", "b": "2"}\<close>, passed to \<open>run_workflow\<close>. In general, for every list of
  tokens each containing exactly one \<open>=\<close> in which no two tokens have the same text
  before the \<open>=\<close>, the mapping passed to \<open>run_workflow\<close> has exactly these texts as
  keys and sends the text before the \<open>=\<close> of each token to the text after it.
\<close>
theorem run_builds_arguments:
  "take 1 (fst (run env keep_data name [''a=1'', ''b=2'']))
     = [Call_run_workflow name (\<not> keep_data) [(''a'', ''1''), (''b'', ''2'')]] \<and>
   ((\<forall>t\<in>set args. count_list t CHR ''='' = 1) \<and> distinct (map before_eq args) \<longrightarrow>
    (\<exists>d. take 1 (fst (run env keep_data name args)) = [Call_run_workflow name (\<not> keep_data) d] \<and>
         dom (map_of d) = before_eq ` set args \<and>
         (\<forall>t\<in>set args. map_of d (before_eq t) = Some (after_eq t))))"
proof (intro conjI impI)
  have "run_arguments [''a=1'', ''b=2''] = Inr [(''a'', ''1''), (''b'', ''2'')]"
    by (simp add: run_arguments_def dict_of_seq_def)
  then show "take 1 (fst (run env keep_data name [''a=1'', ''b=2'']))
     = [Call_run_workflow name (\<not> keep_data) [(''a'', ''1''), (''b'', ''2'')]]"
    by (rule run_first_event)
next
  assume h: "(\<forall>t\<in>set args. count_list t CHR ''='' = 1) \<and> distinct (map before_eq args)"
  let ?d = "fold assign_token args []"
  have wf: "\<forall>t\<in>set args. CHR ''='' \<in> set t"
  proof
    fix t assume "t \<in> set args"
    with h have "count_list t CHR ''='' \<noteq> 0" by simp
    then show "CHR ''='' \<in> set t" by (simp add: count_list_0_iff)
  qed
  have m: "map_of ?d = map_of (rev (map (\<lambda>t. (before_eq t, after_eq t)) args))"
    by (simp add: map_of_fold_assign)
  have first: "take 1 (fst (run env keep_data name args)) = [Call_run_workflow name (\<not> keep_data) ?d]"
    by (rule run_first_event [OF run_arguments_wellformed [OF wf]])
  have keys: "dom (map_of ?d) = before_eq ` set args"
    by (simp add: m dom_map_of_conv_image_fst image_image)
  have vals: "\<forall>t\<in>set args. map_of ?d (before_eq t) = Some (after_eq t)"
  proof
    fix t assume t: "t \<in> set args"
    from h have "inj_on before_eq (set args)" by (simp add: distinct_map)
    with t have "filter (\<lambda>u. before_eq u = before_eq t) args = filter (\<lambda>u. u = t) args"
      by (intro filter_cong) (auto dest: inj_onD)
    moreover have "last (filter (\<lambda>u. u = t) args) = t"
    proof -
      from t have "filter (\<lambda>u. u = t) args \<noteq> []" by (auto simp: filter_empty_conv)
      then have "last (filter (\<lambda>u. u = t) args) \<in> set (filter (\<lambda>u. u = t) args)"
        by (rule last_in_set)
      then show ?thesis by simp
    qed
    ultimately show "map_of ?d (before_eq t) = Some (after_eq t)"
      using map_of_last_wins [OF t, of before_eq after_eq] by (simp add: m)
  qed
  from first keys vals
  show "\<exists>d. take 1 (fst (run env keep_data name args)) = [Call_run_workflow name (\<not> keep_data) d] \<and>
         dom (map_of d) = before_eq ` set args \<and>
         (\<forall>t\<in>set args. map_of d (before_eq t) = Some (after_eq t))"
    by blast
qed

theorem run_builds_arguments_witness:
  "count_list ''x=1'' CHR ''='' = 1 \<and> count_list ''y=2'' CHR ''='' = 1 \<and>
   distinct (map before_eq [''x=1'', ''y=2'']) \<and>
   (\<exists>d. take 1 (fst (run demo_env False ''demo'' [''x=1'', ''y=2'']))
          = [Call_run_workflow ''demo'' (\<not> False) d] \<and>
        dom (map_of d) = before_eq ` set [''x=1'', ''y=2''] \<and>
        (\<forall>t\<in>set [''x=1'', ''y=2'']. map_of d (before_eq t) = Some (after_eq t)))"
proof -
  have h: "(\<forall>t\<in>set [''x=1'', ''y=2'']. count_list t CHR ''='' = 1) \<and>
    distinct (map before_eq [''x=1'', ''y=2''])"
    by (simp add: before_eq_def)
  have e: "count_list ''x=1'' CHR ''='' = 1 \<and> count_list ''y=2'' CHR ''='' = 1 \<and>
    distinct (map before_eq [''x=1'', ''y=2''])"
    using h by simp
  from h e run_builds_arguments [of demo_env False "''demo''" "[''x=1'', ''y=2'']"]
  show ?thesis by blast
qed

text \<open>
  The general part of the claim as stated fails when two tokens have the same text before
  the \<open>=\<close>: for \<open>["a=1", "a=2"]\<close> the mapping is \<open>{"a": "2"}\<close>, which does not send the
  key of the first token to the value of the first token.
\<close>

theorem run_duplicate_key_counterexample:
  "run demo_env False ''demo'' [''a=1'', ''a=2'']
     = ([Call_run_workflow ''demo'' True [(''a'', ''2'')]], None) \<and>
   map_of [(''a'', ''2'')] (before_eq ''a=1'') \<noteq> Some (after_eq ''a=1'')"
  by (simp add: run_def run_arguments_def dict_of_seq_def demo_env_def before_eq_def after_eq_def)

text \<open>
  Claim C4, as amended. For every invocation of the run command whose tokens all contain
  an \<open>=\<close>, \<open>run_workflow\<close> is called exactly once, first of all events, with the name,
  the negation of the \<open>--keep-data\<close> flag and the arguments mapping: the flag given
  means the second argument is false, the flag absent means it is true. Every later event
  is an echoed line.
\<close>
theorem run_forwards_negated_keep_data:
  "\<forall>t\<in>set args. CHR ''='' \<in> set t \<Longrightarrow>
   \<exists>d. run_arguments args = Inr d \<and>
       take 1 (fst (run env keep_data name args)) = [Call_run_workflow name (\<not> keep_data) d] \<and>
       (\<forall>e\<in>set (drop 1 (fst (run env keep_data name args))). \<exists>s. e = Echo s)"
  using run_arguments_wellformed [of args] run_first_event run_later_events by blast

theorem run_forwards_negated_keep_data_witness:
  "CHR ''='' \<in> set ''x=1'' \<and>
   (\<exists>d. run_arguments [''x=1''] = Inr d \<and>
       take 1 (fst (run demo_env True ''demo'' [''x=1''])) = [Call_run_workflow ''demo'' (\<not> True) d] \<and>
       (\<forall>e\<in>set (drop 1 (fst (run demo_env True ''demo'' [''x=1'']))). \<exists>s. e = Echo s))"
proof -
  have h: "\<forall>t\<in>set [''x=1'']. CHR ''='' \<in> set t" by simp
  have e: "CHR ''='' \<in> set ''x=1''" by simp
  from run_forwards_negated_keep_data [OF h, of demo_env True "''demo''"] e
  show ?thesis by blast
qed

text \<open>
  The flag is not forwarded unchanged: with the flag given and no tokens the second
  argument of the call is false, with the flag absent it is true.
\<close>

theorem run_keep_data_flag_counterexample:
  "fst (run demo_env True ''demo'' []) = [Call_run_workflow ''demo'' False []] \<and>
   fst (run demo_env False ''demo'' []) = [Call_run_workflow ''demo'' True []]"
  by (simp add: run_def run_arguments_def dict_of_seq_def demo_env_def)

text \<open>
  Claim C10. A token is split at its first \<open>=\<close> only: the token \<open>k=v1=v2\<close> contributes
  the key \<open>k\<close> with the value \<open>v1=v2\<close>. For every list of tokens that all contain an
  \<open>=\<close>, the mapping passed to \<open>run_workflow\<close> sends the text before the first \<open>=\<close> of
  each token to the text after the first \<open>=\<close> of the last token with that key: a later
  token overwrites an earlier one.
\<close>
theorem run_splits_at_first_eq_last_wins:
  "take 1 (fst (run env keep_data name [''k=v1=v2'']))
     = [Call_run_workflow name (\<not> keep_data) [(''k'', ''v1=v2'')]] \<and>
   ((\<forall>t\<in>set args. CHR ''='' \<in> set t) \<longrightarrow>
    (\<exists>d. take 1 (fst (run env keep_data name args)) = [Call_run_workflow name (\<not> keep_data) d] \<and>
         (\<forall>t\<in>set args.
            map_of d (before_eq t)
              = Some (after_eq (last (filter (\<lambda>u. before_eq u = before_eq t) args))))))"
proof (intro conjI impI)
  have "run_arguments [''k=v1=v2''] = Inr [(''k'', ''v1=v2'')]"
    by (simp add: run_arguments_def dict_of_seq_def)
  then show "take 1 (fst (run env keep_data name [''k=v1=v2'']))
     = [Call_run_workflow name (\<not> keep_data) [(''k'', ''v1=v2'')]]"
    by (rule run_first_event)
next
  assume wf: "\<forall>t\<in>set args. CHR ''='' \<in> set t"
  let ?d = "fold assign_token args []"
  have first: "take 1 (fst (run env keep_data name args)) = [Call_run_workflow name (\<not> keep_data) ?d]"
    by (rule run_first_event [OF run_arguments_wellformed [OF wf]])
  have "\<forall>t\<in>set args. map_of ?d (before_eq t)
          = Some (after_eq (last (filter (\<lambda>u. before_eq u = before_eq t) args)))"
    using map_of_last_wins [of _ args before_eq after_eq] by (simp add: map_of_fold_assign)
  with first
  show "\<exists>d. take 1 (fst (run env keep_data name args)) = [Call_run_workflow name (\<not> keep_data) d] \<and>
         (\<forall>t\<in>set args.
            map_of d (before_eq t)
              = Some (after_eq (last (filter (\<lambda>u. before_eq u = before_eq t) args))))"
    by blast
qed

theorem run_splits_at_first_eq_last_wins_witness:
  "CHR ''='' \<in> set ''k=1'' \<and> CHR ''='' \<in> set ''j=x=y'' \<and> CHR ''='' \<in> set ''k=2'' \<and>
   (\<exists>d. take 1 (fst (run demo_env False ''demo'' [''k=1'', ''j=x=y'', ''k=2'']))
          = [Call_run_workflow ''demo'' (\<not> False) d] \<and>
        (\<forall>t\<in>set [''k=1'', ''j=x=y'', ''k=2''].
            map_of d (before_eq t)
              = Some (after_eq (last (filter (\<lambda>u. before_eq u = before_eq t)
                                             [''k=1'', ''j=x=y'', ''k=2''])))))"
proof -
  have h: "\<forall>t\<in>set [''k=1'', ''j=x=y'', ''k=2'']. CHR ''='' \<in> set t" by simp
  have e: "CHR ''='' \<in> set ''k=1'' \<and> CHR ''='' \<in> set ''j=x=y'' \<and> CHR ''='' \<in> set ''k=2''"
    by simp
  from h e
    run_splits_at_first_eq_last_wins [of demo_env False "''demo''" "[''k=1'', ''j=x=y'', ''k=2'']"]
  show ?thesis by blast
qed

section \<open>Claims about the stop command\<close>

text \<open>
  Claim C5. For every invocation of the stop command with a non-empty id list, the first
  event is the call of \<open>stop_all_workflows()\<close> when the list contains \<open>all\<close>, and the
  call of \<open>stop_tasks\<close> with exactly the given ids otherwise; all later events are echoed
  lines, so no second call is made.
\<close>
theorem stop_dispatch:
  "ids \<noteq> [] \<Longrightarrow>
   take 1 (fst (stop env ids))
     = [if ''all'' \<in> set ids then Call_stop_all_workflows else Call_stop_tasks ids] \<and>
   (\<forall>e\<in>set (drop 1 (fst (stop env ids))). \<exists>s. e = Echo s)"
  using stop_events [of ids env] by auto

theorem stop_dispatch_witness:
  "[''d1'', ''d2''] \<noteq> [] \<and>
   take 1 (fst (stop demo_env [''d1'', ''d2''])) = [Call_stop_tasks [''d1'', ''d2'']] \<and>
   take 1 (fst (stop demo_env [''d1'', ''all''])) = [Call_stop_all_workflows] \<and>
   list_all (\<lambda>e. \<exists>s. e = Echo s) (drop 1 (fst (stop demo_env [''d1'', ''d2''])))"
proof -
  have h: "[''d1'', ''d2''] \<noteq> ([] :: string list)" by simp
  have h': "[''d1'', ''all''] \<noteq> ([] :: string list)" by simp
  from stop_dispatch [OF h, of demo_env] stop_dispatch [OF h', of demo_env] h
  show ?thesis by (simp add: list_all_iff)
qed

text \<open>
  Claim C9. For every invocation of the stop command whose id list contains \<open>all\<close>,
  with whatever other ids, the only call is \<open>stop_all_workflows()\<close>: \<open>stop_tasks\<close> is
  called with no list of ids at all.
\<close>
theorem stop_all_ignores_other_ids:
  "''all'' \<in> set ids \<Longrightarrow>
   (\<exists>echoes. fst (stop env ids) = Call_stop_all_workflows # map Echo echoes) \<and>
   (\<forall>js. Call_stop_tasks js \<notin> set (fst (stop env ids)))"
proof -
  assume a: "''all'' \<in> set ids"
  then have "ids \<noteq> []" by auto
  from stop_events [OF this, of env] a
  obtain echoes where e: "fst (stop env ids) = Call_stop_all_workflows # map Echo echoes"
    by auto
  then have "\<forall>js. Call_stop_tasks js \<notin> set (fst (stop env ids))" by auto
  with e show ?thesis by blast
qed

theorem stop_all_ignores_other_ids_witness:
  "''all'' \<in> set [''d1'', ''all'', ''d2''] \<and>
   (\<exists>echoes. fst (stop demo_env [''d1'', ''all'', ''d2'']) = Call_stop_all_workflows # map Echo echoes) \<and>
   (\<forall>js. Call_stop_tasks js \<notin> set (fst (stop demo_env [''d1'', ''all'', ''d2''])))"
proof -
  have h: "''all'' \<in> set [''d1'', ''all'', ''d2'']" by simp
  from stop_all_ignores_other_ids [OF h, of demo_env] h show ?thesis by blast
qed

text \<open>
  Claim C6, as amended. For every stop invocation with a non-empty id list in which no
  registered task matches the given ids, the call made to the Stop Coordinator returns the
  empty list of affected tasks, and the command completes without an exception: it
  echoes \<open>Could not find the specified dag or workflow\<close> after the call and nothing
  else.
\<close>
theorem stop_no_match_not_found:
  assumes "ids \<noteq> []"
    and "\<forall>t\<in>set registry. \<not> request_matches ids t"
  shows "(if ''all'' \<in> set ids then spec_stop_all_workflows registry
          else spec_stop_tasks registry ids) = Inr [] \<and>
         stop (with_stop_coordinator registry env) ids =
           ([if ''all'' \<in> set ids then Call_stop_all_workflows else Call_stop_tasks ids,
             Echo ''Could not find the specified dag or workflow''], None)"
proof -
  have tasks: "spec_stop_tasks registry ids = Inr []"
    using assms(2) by (auto simp: spec_stop_tasks_def request_matches_def filter_empty_conv)
  have workflows: "''all'' \<in> set ids \<Longrightarrow> spec_stop_all_workflows registry = Inr []"
    using assms(2) by (auto simp: spec_stop_all_workflows_def request_matches_def filter_empty_conv)
  have answer: "(if ''all'' \<in> set ids then spec_stop_all_workflows registry
                 else spec_stop_tasks registry ids) = Inr []"
    using tasks workflows by simp
  have "(if ''all'' \<in> set ids then stop_all_workflows (with_stop_coordinator registry env)
         else stop_tasks (with_stop_coordinator registry env) ids) = Inr []"
    using tasks workflows by (simp add: with_stop_coordinator_def)
  from stop_empty_answer [OF assms(1) this] answer show ?thesis by simp
qed

theorem stop_no_match_not_found_witness:
  "[''nope''] \<noteq> [] \<and>
   \<not> request_matches [''nope''] demo_task \<and>
   spec_stop_tasks [demo_task] [''nope''] = Inr [] \<and>
   stop (with_stop_coordinator [demo_task] demo_env) [''nope''] =
     ([Call_stop_tasks [''nope''],
       Echo ''Could not find the specified dag or workflow''], None)"
proof -
  have h1: "[''nope''] \<noteq> ([] :: string list)" by simp
  have m: "\<not> request_matches [''nope''] demo_task"
    by (simp add: request_matches_def demo_task_def)
  then have h2: "\<forall>t\<in>set [demo_task]. \<not> request_matches [''nope''] t" by simp
  from stop_no_match_not_found [OF h1 h2, of demo_env] h1 m show ?thesis by simp
qed

text \<open>
  Without the restriction to non-empty id lists the claim fails. With no id given no
  registered task matches, yet the command makes no call at all and the line it echoes
  is not the one for a task that was not found.
\<close>

theorem stop_without_ids_counterexample:
  "\<not> request_matches [] demo_task \<and>
   stop (with_stop_coordinator [demo_task] demo_env) []
     = ([Echo ''Please specify at least one dag or workflow''], None)"
  by (simp add: request_matches_def stop_def)

section \<open>Claims about the worker command\<close>

text \<open>
  Claim C7. Without the option \<open>--queues\<close> the worker runtime is started with the queue
  names \<open>workflow\<close>, \<open>dag\<close>, \<open>task\<close>. For every value of the option, the list passed
  to \<open>run_worker\<close> is the value cut at every comma: joining the list with commas gives
  the value back, no piece contains a comma, and there is one piece more than there are
  commas.
\<close>
theorem worker_queues:
  "fst (worker_command env None) = [Call_run_worker [''workflow'', ''dag'', ''task'']] \<and>
   (\<exists>qs. fst (worker_command env (Some queues)) = [Call_run_worker qs] \<and>
         str_join '','' qs = queues \<and>
         (\<forall>q\<in>set qs. CHR '','' \<notin> set q) \<and>
         length qs = Suc (count_list queues CHR '',''))"
proof
  show "fst (worker_command env None) = [Call_run_worker [''workflow'', ''dag'', ''task'']]"
    by (simp add: worker_command_def worker_def Let_def)
next
  let ?qs = "str_split CHR '','' None queues"
  have "fst (worker_command env (Some queues)) = [Call_run_worker ?qs]"
    by (simp add: worker_command_def worker_def Let_def)
  moreover have "str_join '','' ?qs = queues" by (rule str_join_split)
  moreover have "\<forall>q\<in>set ?qs. CHR '','' \<notin> set q" using str_split_pieces by blast
  moreover have "length ?qs = Suc (count_list queues CHR '','')" by (rule str_split_length)
  ultimately show "\<exists>qs. fst (worker_command env (Some queues)) = [Call_run_worker qs] \<and>
         str_join '','' qs = queues \<and>
         (\<forall>q\<in>set qs. CHR '','' \<notin> set q) \<and>
         length qs = Suc (count_list queues CHR '','')"
    by blast
qed

theorem worker_queues_witness:
  "fst (worker_command demo_env None) = [Call_run_worker [''workflow'', ''dag'', ''task'']] \<and>
   (\<exists>qs. fst (worker_command demo_env (Some ''dag,fast'')) = [Call_run_worker qs] \<and>
         str_join '','' qs = ''dag,fast'' \<and>
         (\<forall>q\<in>set qs. CHR '','' \<notin> set q) \<and>
         length qs = Suc (count_list ''dag,fast'' CHR '',''))"
  using worker_queues [of demo_env "''dag,fast''"] .

section \<open>Claims about the info command\<close>

text \<open>
  Claim C8. For every worker entry displayed by the info command, that is for every
  worker of \<open>get_workers()\<close> such that the entries before it were echoed without an
  exception, the command echoes the line made of the label \<open>> broker:\<close>, padded to 20
  characters, a space, and the connection URI
  \<open>transport://hostname:port/virtual_host\<close> of the worker's broker descriptor.
\<close>
theorem info_broker_uri:
  assumes "get_workers env = Inr workers"
    and "i < length workers"
    and "snd (echo_workers env (take i workers)) = None"
  shows "Echo (ljust 20 (style env ''> broker:'' None (Some True)) @ '' ''
               @ connection_uri (broker (snd (workers ! i))))
           \<in> set (fst (info env))"
proof -
  obtain name wd where w: "workers ! i = (name, wd)" by (cases "workers ! i")
  from assms(2) have "workers = take i workers @ (name, wd) # drop (Suc i) workers"
    by (simp add: w [symmetric] id_take_nth_drop)
  then have "echo_workers env workers =
      and_then (echo_workers env (take i workers))
        (and_then (echo_worker env name wd) (echo_workers env (drop (Suc i) workers)))"
    using echo_workers_append [of env "take i workers" "(name, wd) # drop (Suc i) workers"]
    by simp
  with assms(3) have "fst (echo_workers env workers) =
      fst (echo_workers env (take i workers))
      @ fst (and_then (echo_worker env name wd) (echo_workers env (drop (Suc i) workers)))"
    by (simp add: fst_and_then_completed)
  moreover have "Echo (broker_line env (broker wd))
      \<in> set (fst (and_then (echo_worker env name wd) (echo_workers env (drop (Suc i) workers))))"
    using broker_line_in_echo_worker set_fst_and_then by blast
  ultimately have "Echo (broker_line env (broker wd)) \<in> set (fst (echo_workers env workers))"
    by simp
  with assms(1) have "Echo (broker_line env (broker wd)) \<in> set (fst (info env))"
    by (simp add: info_def and_then_def)
  then show ?thesis by (simp add: broker_line_uri w)
qed

theorem info_broker_uri_witness:
  "get_workers demo_env = Inr [(''celery@host'', demo_worker)] \<and>
   (0::nat) < length [(''celery@host'', demo_worker)] \<and>
   snd (echo_workers demo_env (take 0 [(''celery@host'', demo_worker)])) = None \<and>
   connection_uri (broker (snd ([(''celery@host'', demo_worker)] ! 0))) = ''amqp://localhost:5672/lf'' \<and>
   Echo (ljust 20 (style demo_env ''> broker:'' None (Some True)) @ '' ''
         @ connection_uri (broker (snd ([(''celery@host'', demo_worker)] ! 0))))
     \<in> set (fst (info demo_env))"
proof -
  have h1: "get_workers demo_env = Inr [(''celery@host'', demo_worker)]"
    by (simp add: demo_env_def)
  have h2: "(0::nat) < length [(''celery@host'', demo_worker)]" by simp
  have h3: "snd (echo_workers demo_env (take 0 [(''celery@host'', demo_worker)])) = None"
    by simp
  have u: "connection_uri (broker (snd ([(''celery@host'', demo_worker)] ! 0))) = ''amqp://localhost:5672/lf''"
    by (simp add: connection_uri_def demo_worker_def demo_broker_def str_int_def str_nat.simps
          char_of_def bit_simps)
  from info_broker_uri [OF h1 h2 h3] h1 h2 h3 u show ?thesis by blast
qed

section \<open>Claims about the config command\<close>

text \<open>
  Claim C2 says that every invocation of the config command writes the default
  configuration document to \<open>lightflow.cfg\<close> without an error. In the module the name
  \<open>config\<close> is bound to the click command itself (the configuration object is
  \<open>lf_config\<close>), so \<open>config.default()\<close> raises \<open>AttributeError\<close> for every default
  document and every file system, after \<open>lightflow.cfg\<close> has been opened for writing and
  left empty.
\<close>
theorem config_raises_AttributeError:
  "config default_doc files = (files(''lightflow.cfg'' \<mapsto> []), Some AttributeError)"
  by (simp add: config_def module_globals_def module_bindings_def)

end
